theory Spec2Isabelle
  imports Complex_Main "HOL-Library.Word"
begin

section \<open>The Matter glue of the light example: examples/light/main/app_matter.cpp\<close>

text \<open>
  The file translates attribute-change notifications of the protocol stack into driver
  calls, driver state changes into attribute-store writes, and brings the stack up once.
  The dispatcher, the reporters and the bring-up are embedded as HOL functions that return
  the sequence of calls they make across the boundary of the file (driver, attribute
  store, platform, log), in order, together with their result where they have one.
\<close>

subsection \<open>Machine types\<close>

type_synonym uint8_t = "8 word"
type_synonym uint16_t = "16 word"
type_synonym uint32_t = "32 word"

text \<open>
  \<open>EndpointId\<close>, \<open>ClusterId\<close> and \<open>AttributeId\<close> are typedefs of the stack's
  \<^verbatim>\<open>app/util/basic-types.h\<close>. The file only compares and forwards them.
\<close>

type_synonym EndpointId = "8 word"
type_synonym ClusterId = "16 word"
type_synonym AttributeId = "16 word"

text \<open>
  The identifiers of clusters, attributes, attribute types and the server mask are macros
  of the stack's generated headers (\<^verbatim>\<open>cluster-id.h\<close>, \<^verbatim>\<open>attribute-id.h\<close>,
  \<^verbatim>\<open>attribute-type.h\<close>, \<^verbatim>\<open>att-storage.h\<close>). They are taken as a parameter.
\<close>

record zcl_constants =
  ZCL_ON_OFF_CLUSTER_ID :: ClusterId
  ZCL_LEVEL_CONTROL_CLUSTER_ID :: ClusterId
  ZCL_COLOR_CONTROL_CLUSTER_ID :: ClusterId
  ZCL_ON_OFF_ATTRIBUTE_ID :: AttributeId
  ZCL_CURRENT_LEVEL_ATTRIBUTE_ID :: AttributeId
  ZCL_COLOR_CONTROL_CURRENT_HUE_ATTRIBUTE_ID :: AttributeId
  ZCL_COLOR_CONTROL_CURRENT_SATURATION_ATTRIBUTE_ID :: AttributeId
  ZCL_COLOR_CONTROL_COLOR_TEMPERATURE_ATTRIBUTE_ID :: AttributeId
  CLUSTER_MASK_SERVER :: uint8_t
  ZCL_BOOLEAN_ATTRIBUTE_TYPE :: uint8_t
  ZCL_INT8U_ATTRIBUTE_TYPE :: uint8_t
  ZCL_INT16U_ATTRIBUTE_TYPE :: uint8_t

text \<open>The values the ZCL standard assigns, as a sample instance of the parameter.\<close>

definition zcl_standard :: zcl_constants where
  "zcl_standard = \<lparr>
     ZCL_ON_OFF_CLUSTER_ID = 0x0006,
     ZCL_LEVEL_CONTROL_CLUSTER_ID = 0x0008,
     ZCL_COLOR_CONTROL_CLUSTER_ID = 0x0300,
     ZCL_ON_OFF_ATTRIBUTE_ID = 0x0000,
     ZCL_CURRENT_LEVEL_ATTRIBUTE_ID = 0x0000,
     ZCL_COLOR_CONTROL_CURRENT_HUE_ATTRIBUTE_ID = 0x0000,
     ZCL_COLOR_CONTROL_CURRENT_SATURATION_ATTRIBUTE_ID = 0x0001,
     ZCL_COLOR_CONTROL_COLOR_TEMPERATURE_ATTRIBUTE_ID = 0x0007,
     CLUSTER_MASK_SERVER = 0x40,
     ZCL_BOOLEAN_ATTRIBUTE_TYPE = 0x10,
     ZCL_INT8U_ATTRIBUTE_TYPE = 0x20,
     ZCL_INT16U_ATTRIBUTE_TYPE = 0x21 \<rparr>"

text \<open>
  The two if-chains of the dispatcher test the cluster ids, and the three attribute ids of
  the color-control cluster, one after the other. Where a result depends on which branch
  is reached, the ids are required to differ.
\<close>

definition distinct_ids :: "zcl_constants \<Rightarrow> bool" where
  "distinct_ids K =
     (distinct [ZCL_ON_OFF_CLUSTER_ID K, ZCL_LEVEL_CONTROL_CLUSTER_ID K,
                ZCL_COLOR_CONTROL_CLUSTER_ID K] \<and>
      distinct [ZCL_COLOR_CONTROL_CURRENT_HUE_ATTRIBUTE_ID K,
                ZCL_COLOR_CONTROL_CURRENT_SATURATION_ATTRIBUTE_ID K,
                ZCL_COLOR_CONTROL_COLOR_TEMPERATURE_ATTRIBUTE_ID K])"

subsection \<open>Results of the calls the file consumes\<close>

text \<open>
  The file compares a \<open>CHIP_ERROR\<close> with \<open>CHIP_NO_ERROR\<close> and an \<open>EmberAfStatus\<close>
  with \<open>EMBER_ZCL_STATUS_SUCCESS\<close> only; every other value is a failure.
\<close>

datatype CHIP_ERROR = CHIP_NO_ERROR | CHIP_ERROR_OTHER int

datatype EmberAfStatus = EMBER_ZCL_STATUS_SUCCESS | EMBER_ZCL_STATUS_OTHER uint8_t

text \<open>The three codes of \<open>esp_err_t\<close> that \<open>app_matter_init\<close> returns.\<close>

datatype esp_err_t = ESP_OK | ESP_FAIL | ESP_ERR_NO_MEM

text \<open>
  The origin tag of a driver update. The file passes \<open>APP_DRIVER_SRC_MATTER\<close> only; the
  other members of the enum of \<^verbatim>\<open>app_driver.h\<close> are kept apart by a number.
\<close>

datatype app_driver_src_t = APP_DRIVER_SRC_MATTER | APP_DRIVER_SRC_OTHER nat

subsection \<open>Calls across the boundary\<close>

datatype log_level = ESP_LOGE | ESP_LOGW | ESP_LOGI

text \<open>The object behind the data pointer of an attribute write, with its C type.\<close>

datatype object = Bool_object bool | U8_object uint8_t | U16_object uint16_t

text \<open>
  One constructor per function the file calls. A log call carries its format string and
  the values of its arguments; a driver call carries the value of its argument expression
  at the call site and the origin tag.
\<close>

datatype call =
    ESP_LOG log_level string "int list"
  | app_driver_update_and_report_power uint8_t app_driver_src_t
  | app_driver_update_and_report_brightness uint8_t app_driver_src_t
  | app_driver_update_and_report_hue uint16_t app_driver_src_t
  | app_driver_update_and_report_saturation uint8_t app_driver_src_t
  | app_driver_update_and_report_temperature uint32_t app_driver_src_t
  | emberAfReadServerAttribute EndpointId ClusterId AttributeId nat
  | emberAfWriteAttribute EndpointId ClusterId AttributeId uint8_t object uint8_t
  | PlatformMgr_InitChipStack
  | ConnectivityMgr_SetBLEAdvertisingEnabled bool
  | Platform_MemoryInit
  | PlatformMgr_StartEventLoopTask
  | Platform_MemoryShutdown
  | PlatformMgr_AddEventHandler
  | ThreadStackMgr_InitThreadStack
  | ThreadStackMgr_StartThreadTask
  | InitServer
  | app_driver_register_src app_driver_src_t

fun is_driver_call :: "call \<Rightarrow> bool" where
  "is_driver_call (app_driver_update_and_report_power v s) = True"
| "is_driver_call (app_driver_update_and_report_brightness v s) = True"
| "is_driver_call (app_driver_update_and_report_hue v s) = True"
| "is_driver_call (app_driver_update_and_report_saturation v s) = True"
| "is_driver_call (app_driver_update_and_report_temperature v s) = True"
| "is_driver_call c = False"

fun is_warning :: "call \<Rightarrow> bool" where
  "is_warning (ESP_LOG ESP_LOGW fmt args) = True"
| "is_warning c = False"

fun is_write :: "call \<Rightarrow> bool" where
  "is_write (emberAfWriteAttribute e c a m d t) = True"
| "is_write c = False"

fun write_endpoint :: "call \<Rightarrow> EndpointId option" where
  "write_endpoint (emberAfWriteAttribute e c a m d t) = Some e"
| "write_endpoint c = None"

text \<open>
  The attribute store as the file sees it. A read of the 16-bit color temperature gives a
  status and the content of the destination object after the call; a write gives a status.
\<close>

record attribute_store =
  emberAfReadServerAttribute_ret ::
    "EndpointId \<Rightarrow> ClusterId \<Rightarrow> AttributeId \<Rightarrow> EmberAfStatus \<times> uint16_t"
  emberAfWriteAttribute_ret ::
    "EndpointId \<Rightarrow> ClusterId \<Rightarrow> AttributeId \<Rightarrow> uint8_t \<Rightarrow> object \<Rightarrow> uint8_t \<Rightarrow> EmberAfStatus"

text \<open>
  The \<open>uint8_t *value\<close> of a notification: the byte at the pointer and the bytes after it.
\<close>

type_synonym value_ptr = "uint8_t \<times> uint8_t list"

definition deref :: "value_ptr \<Rightarrow> uint8_t" where
  "deref value = fst value"

subsection \<open>Unit conversion\<close>

text \<open>
  Modelled from the spec: the range maxima of \<^verbatim>\<open>app_constants.h\<close>, which is not
  among the sources. The spec gives hue wire range max 254, local degree max 359,
  saturation wire range max 254, local percent max 100.
\<close>

definition HUE_MAX :: int where "HUE_MAX = 359"
definition HUE_ATTRIBUTE_MAX :: int where "HUE_ATTRIBUTE_MAX = 254"
definition SATURATION_MAX :: int where "SATURATION_MAX = 100"
definition SATURATION_ATTRIBUTE_MAX :: int where "SATURATION_ATTRIBUTE_MAX = 254"

text \<open>
  Modelled from the spec: the macro \<open>REMAP_TO_RANGE\<close> of \<^verbatim>\<open>app_constants.h\<close>, which
  is not among the sources. The spec gives
  \<open>remap(value, fromMax, toMax) = round(value * toMax / fromMax)\<close>. Rounding is to the
  nearest integer, a half upwards, computed on integers; the operands are of type \<open>int\<close>
  after promotion and stay far below its limit.
\<close>

definition REMAP_TO_RANGE :: "int \<Rightarrow> int \<Rightarrow> int \<Rightarrow> int" where
  "REMAP_TO_RANGE value fromMax toMax = (2 * (value * toMax) + fromMax) div (2 * fromMax)"

text \<open>Line 76: \<open>1000000 / (temp_mireds == 0 ? 1 : temp_mireds)\<close>, in \<open>int\<close>, stored in a \<open>uint32_t\<close>.\<close>

definition mireds_to_kelvin :: "uint16_t \<Rightarrow> uint32_t" where
  "mireds_to_kelvin temp_mireds =
     word_of_int (1000000 div (if temp_mireds = 0 then 1 else uint temp_mireds))"

text \<open>Line 140: \<open>1000000 / temperature\<close>, in \<open>uint32_t\<close>, stored in a \<open>uint16_t\<close>.\<close>

definition kelvin_to_mireds :: "uint32_t \<Rightarrow> uint16_t" where
  "kelvin_to_mireds temperature = ucast ((1000000 :: uint32_t) div temperature)"

subsection \<open>Inbound attribute dispatcher\<close>

definition on_on_off_attribute_changed ::
  "zcl_constants \<Rightarrow> EndpointId \<Rightarrow> AttributeId \<Rightarrow> value_ptr \<Rightarrow> uint32_t \<Rightarrow> call list" where
  "on_on_off_attribute_changed K endpoint attribute value size' =
     (if attribute = ZCL_ON_OFF_ATTRIBUTE_ID K then
        [app_driver_update_and_report_power (deref value) APP_DRIVER_SRC_MATTER]
      else
        [ESP_LOG ESP_LOGW ''Unknown attribute in OnOff cluster: %d'' [uint attribute]])"

definition on_level_control_atrribute_changed ::
  "zcl_constants \<Rightarrow> EndpointId \<Rightarrow> AttributeId \<Rightarrow> value_ptr \<Rightarrow> uint32_t \<Rightarrow> call list" where
  "on_level_control_atrribute_changed K endpoint attribute value size' =
     (if attribute = ZCL_CURRENT_LEVEL_ATTRIBUTE_ID K then
        [app_driver_update_and_report_brightness (deref value) APP_DRIVER_SRC_MATTER]
      else
        [ESP_LOG ESP_LOGW ''Unknown attribute in level control cluster: %d'' [uint attribute]])"

definition on_color_control_attribute_changed ::
  "zcl_constants \<Rightarrow> attribute_store \<Rightarrow> EndpointId \<Rightarrow> AttributeId \<Rightarrow> value_ptr \<Rightarrow> uint32_t
     \<Rightarrow> call list" where
  "on_color_control_attribute_changed K store endpoint attribute value size' =
     (if attribute = ZCL_COLOR_CONTROL_CURRENT_HUE_ATTRIBUTE_ID K then
        let hue = (word_of_int (REMAP_TO_RANGE (uint (ucast (deref value) :: uint16_t))
                                  HUE_ATTRIBUTE_MAX HUE_MAX) :: uint16_t)
        in [app_driver_update_and_report_hue hue APP_DRIVER_SRC_MATTER]
      else if attribute = ZCL_COLOR_CONTROL_CURRENT_SATURATION_ATTRIBUTE_ID K then
        let saturation = (word_of_int (REMAP_TO_RANGE (uint (ucast (deref value) :: uint16_t))
                                  SATURATION_ATTRIBUTE_MAX SATURATION_MAX) :: uint8_t)
        in [app_driver_update_and_report_saturation saturation APP_DRIVER_SRC_MATTER]
      else if attribute = ZCL_COLOR_CONTROL_COLOR_TEMPERATURE_ATTRIBUTE_ID K then
        let temp_mireds = snd (emberAfReadServerAttribute_ret store endpoint
                                 (ZCL_COLOR_CONTROL_CLUSTER_ID K)
                                 (ZCL_COLOR_CONTROL_COLOR_TEMPERATURE_ATTRIBUTE_ID K));
            color_temp = mireds_to_kelvin temp_mireds
        in [emberAfReadServerAttribute endpoint (ZCL_COLOR_CONTROL_CLUSTER_ID K)
              (ZCL_COLOR_CONTROL_COLOR_TEMPERATURE_ATTRIBUTE_ID K) 2,
            app_driver_update_and_report_temperature color_temp APP_DRIVER_SRC_MATTER]
      else
        [ESP_LOG ESP_LOGW ''Unknown attribute in color control cluster: %d'' [uint attribute]])"

definition emberAfPostAttributeChangeCallback ::
  "zcl_constants \<Rightarrow> attribute_store \<Rightarrow> EndpointId \<Rightarrow> ClusterId \<Rightarrow> AttributeId \<Rightarrow> uint8_t
     \<Rightarrow> uint16_t \<Rightarrow> uint8_t \<Rightarrow> uint16_t \<Rightarrow> value_ptr \<Rightarrow> call list" where
  "emberAfPostAttributeChangeCallback K store endpoint cluster attribute mask' manufacturer
       type' size' value =
     ESP_LOG ESP_LOGI ''Handle cluster ID: %d'' [uint cluster] #
     (if cluster = ZCL_ON_OFF_CLUSTER_ID K then
        on_on_off_attribute_changed K endpoint attribute value (ucast size')
      else if cluster = ZCL_LEVEL_CONTROL_CLUSTER_ID K then
        on_level_control_atrribute_changed K endpoint attribute value (ucast size')
      else if cluster = ZCL_COLOR_CONTROL_CLUSTER_ID K then
        on_color_control_attribute_changed K store endpoint attribute value (ucast size')
      else [])"

subsection \<open>Outbound state reporter\<close>

text \<open>
  A reporter either returns or stops at a failed \<open>assert\<close>, which aborts the process
  (assertions are compiled in). \<open>assert_status\<close> is the closing
  \<open>assert(status == EMBER_ZCL_STATUS_SUCCESS)\<close> of each of them.
\<close>

datatype outcome = Returned | Aborted

definition assert_status :: "EmberAfStatus \<Rightarrow> outcome" where
  "assert_status status = (if status = EMBER_ZCL_STATUS_SUCCESS then Returned else Aborted)"

definition update_matter_power ::
  "zcl_constants \<Rightarrow> attribute_store \<Rightarrow> bool \<Rightarrow> call list \<times> outcome" where
  "update_matter_power K store power' =
     (let status = emberAfWriteAttribute_ret store 1 (ZCL_ON_OFF_CLUSTER_ID K)
                     (ZCL_ON_OFF_ATTRIBUTE_ID K) (CLUSTER_MASK_SERVER K) (Bool_object power')
                     (ZCL_BOOLEAN_ATTRIBUTE_TYPE K)
      in ([emberAfWriteAttribute 1 (ZCL_ON_OFF_CLUSTER_ID K) (ZCL_ON_OFF_ATTRIBUTE_ID K)
             (CLUSTER_MASK_SERVER K) (Bool_object power') (ZCL_BOOLEAN_ATTRIBUTE_TYPE K)],
          assert_status status))"

definition update_matter_brightness ::
  "zcl_constants \<Rightarrow> attribute_store \<Rightarrow> uint8_t \<Rightarrow> call list \<times> outcome" where
  "update_matter_brightness K store brightness =
     (let status = emberAfWriteAttribute_ret store 1 (ZCL_LEVEL_CONTROL_CLUSTER_ID K)
                     (ZCL_CURRENT_LEVEL_ATTRIBUTE_ID K) (CLUSTER_MASK_SERVER K)
                     (U8_object brightness) (ZCL_INT8U_ATTRIBUTE_TYPE K)
      in ([emberAfWriteAttribute 1 (ZCL_LEVEL_CONTROL_CLUSTER_ID K)
             (ZCL_CURRENT_LEVEL_ATTRIBUTE_ID K) (CLUSTER_MASK_SERVER K)
             (U8_object brightness) (ZCL_INT8U_ATTRIBUTE_TYPE K)],
          assert_status status))"

definition update_matter_hue ::
  "zcl_constants \<Rightarrow> attribute_store \<Rightarrow> uint16_t \<Rightarrow> call list \<times> outcome" where
  "update_matter_hue K store hue =
     (let hue_attribute = (word_of_int (REMAP_TO_RANGE (uint hue) HUE_MAX HUE_ATTRIBUTE_MAX)
                             :: uint8_t);
          status = emberAfWriteAttribute_ret store 1 (ZCL_COLOR_CONTROL_CLUSTER_ID K)
                     (ZCL_COLOR_CONTROL_CURRENT_HUE_ATTRIBUTE_ID K) (CLUSTER_MASK_SERVER K)
                     (U8_object hue_attribute) (ZCL_INT8U_ATTRIBUTE_TYPE K)
      in ([emberAfWriteAttribute 1 (ZCL_COLOR_CONTROL_CLUSTER_ID K)
             (ZCL_COLOR_CONTROL_CURRENT_HUE_ATTRIBUTE_ID K) (CLUSTER_MASK_SERVER K)
             (U8_object hue_attribute) (ZCL_INT8U_ATTRIBUTE_TYPE K)],
          assert_status status))"

definition update_matter_saturation ::
  "zcl_constants \<Rightarrow> attribute_store \<Rightarrow> uint8_t \<Rightarrow> call list \<times> outcome" where
  "update_matter_saturation K store saturation =
     (let saturation_attribute =
            (word_of_int (REMAP_TO_RANGE (uint (ucast saturation :: uint16_t))
                            SATURATION_MAX SATURATION_ATTRIBUTE_MAX) :: uint8_t);
          status = emberAfWriteAttribute_ret store 1 (ZCL_COLOR_CONTROL_CLUSTER_ID K)
                     (ZCL_COLOR_CONTROL_CURRENT_SATURATION_ATTRIBUTE_ID K)
                     (CLUSTER_MASK_SERVER K) (U8_object saturation_attribute)
                     (ZCL_INT8U_ATTRIBUTE_TYPE K)
      in ([emberAfWriteAttribute 1 (ZCL_COLOR_CONTROL_CLUSTER_ID K)
             (ZCL_COLOR_CONTROL_CURRENT_SATURATION_ATTRIBUTE_ID K) (CLUSTER_MASK_SERVER K)
             (U8_object saturation_attribute) (ZCL_INT8U_ATTRIBUTE_TYPE K)],
          assert_status status))"

definition update_matter_temperature ::
  "zcl_constants \<Rightarrow> attribute_store \<Rightarrow> uint32_t \<Rightarrow> call list \<times> outcome" where
  "update_matter_temperature K store temperature =
     (if \<not> 18 \<le> temperature then ([], Aborted)
      else
        let temp_mireds = kelvin_to_mireds temperature;
            status = emberAfWriteAttribute_ret store 1 (ZCL_COLOR_CONTROL_CLUSTER_ID K)
                       (ZCL_COLOR_CONTROL_COLOR_TEMPERATURE_ATTRIBUTE_ID K)
                       (CLUSTER_MASK_SERVER K) (U16_object temp_mireds)
                       (ZCL_INT16U_ATTRIBUTE_TYPE K)
        in ([emberAfWriteAttribute 1 (ZCL_COLOR_CONTROL_CLUSTER_ID K)
               (ZCL_COLOR_CONTROL_COLOR_TEMPERATURE_ATTRIBUTE_ID K) (CLUSTER_MASK_SERVER K)
               (U16_object temp_mireds) (ZCL_INT16U_ATTRIBUTE_TYPE K)],
            assert_status status))"

subsection \<open>Stack lifecycle controller\<close>

text \<open>
  What the five checked platform calls of \<open>app_matter_init\<close> return. The flag
  \<open>CHIP_DEVICE_CONFIG_ENABLE_THREAD\<close> of the build is the first argument of the function.
\<close>

record platform =
  InitChipStack_ret :: CHIP_ERROR
  MemoryInit_ret :: CHIP_ERROR
  StartEventLoopTask_ret :: CHIP_ERROR
  InitThreadStack_ret :: CHIP_ERROR
  StartThreadTask_ret :: CHIP_ERROR

definition app_matter_init :: "bool \<Rightarrow> platform \<Rightarrow> call list \<times> esp_err_t" where
  "app_matter_init CHIP_DEVICE_CONFIG_ENABLE_THREAD p =
     (let t1 = [PlatformMgr_InitChipStack] in
      if InitChipStack_ret p \<noteq> CHIP_NO_ERROR then
        (t1 @ [ESP_LOG ESP_LOGE ''Failed to initialize CHIP stack'' []], ESP_FAIL)
      else
      let t2 = t1 @ [ConnectivityMgr_SetBLEAdvertisingEnabled True, Platform_MemoryInit] in
      if MemoryInit_ret p \<noteq> CHIP_NO_ERROR then
        (t2 @ [ESP_LOG ESP_LOGE ''Failed to initialize CHIP memory pool'' []], ESP_ERR_NO_MEM)
      else
      let t3 = t2 @ [PlatformMgr_StartEventLoopTask] in
      if StartEventLoopTask_ret p \<noteq> CHIP_NO_ERROR then
        (t3 @ [Platform_MemoryShutdown,
               ESP_LOG ESP_LOGE ''Failed to launch Matter main task'' []], ESP_FAIL)
      else
      let t4 = t3 @ [PlatformMgr_AddEventHandler] in
      if CHIP_DEVICE_CONFIG_ENABLE_THREAD \<and> InitThreadStack_ret p \<noteq> CHIP_NO_ERROR then
        (t4 @ [ThreadStackMgr_InitThreadStack,
               ESP_LOG ESP_LOGE ''Failed to initialize Thread stack'' []], ESP_FAIL)
      else if CHIP_DEVICE_CONFIG_ENABLE_THREAD \<and> StartThreadTask_ret p \<noteq> CHIP_NO_ERROR then
        (t4 @ [ThreadStackMgr_InitThreadStack, ThreadStackMgr_StartThreadTask,
               ESP_LOG ESP_LOGE ''Failed to launch Thread task'' []], ESP_FAIL)
      else
        (t4 @ (if CHIP_DEVICE_CONFIG_ENABLE_THREAD
               then [ThreadStackMgr_InitThreadStack, ThreadStackMgr_StartThreadTask] else [])
            @ [InitServer, app_driver_register_src APP_DRIVER_SRC_MATTER], ESP_OK))"

text \<open>
  The platform in which every step before \<open>k\<close> succeeds and step \<open>k\<close> fails, for the
  five checked steps in their order; \<open>fail_at 5\<close> is the platform in which none fails.
\<close>

datatype step = Chip_Stack_Init | Memory_Pool_Init | Event_Loop_Start
  | Thread_Stack_Init | Thread_Task_Start

definition fail_at :: "step \<Rightarrow> platform" where
  "fail_at k = \<lparr>
     InitChipStack_ret = (if k = Chip_Stack_Init then CHIP_ERROR_OTHER 1 else CHIP_NO_ERROR),
     MemoryInit_ret = (if k = Memory_Pool_Init then CHIP_ERROR_OTHER 1 else CHIP_NO_ERROR),
     StartEventLoopTask_ret =
       (if k = Event_Loop_Start then CHIP_ERROR_OTHER 1 else CHIP_NO_ERROR),
     InitThreadStack_ret =
       (if k = Thread_Stack_Init then CHIP_ERROR_OTHER 1 else CHIP_NO_ERROR),
     StartThreadTask_ret =
       (if k = Thread_Task_Start then CHIP_ERROR_OTHER 1 else CHIP_NO_ERROR) \<rparr>"

subsection \<open>Notions used to state the properties\<close>

text \<open>
  A cluster is known when one of the three branches of the dispatcher takes it; an
  attribute is recognized in a cluster when the handler of that cluster has a branch for it.
\<close>

definition known_cluster :: "zcl_constants \<Rightarrow> ClusterId \<Rightarrow> bool" where
  "known_cluster K cluster =
     (cluster = ZCL_ON_OFF_CLUSTER_ID K \<or> cluster = ZCL_LEVEL_CONTROL_CLUSTER_ID K \<or>
      cluster = ZCL_COLOR_CONTROL_CLUSTER_ID K)"

definition recognized_attribute :: "zcl_constants \<Rightarrow> ClusterId \<Rightarrow> AttributeId \<Rightarrow> bool" where
  "recognized_attribute K cluster attribute =
     (cluster = ZCL_ON_OFF_CLUSTER_ID K \<and> attribute = ZCL_ON_OFF_ATTRIBUTE_ID K \<or>
      cluster = ZCL_LEVEL_CONTROL_CLUSTER_ID K \<and> attribute = ZCL_CURRENT_LEVEL_ATTRIBUTE_ID K \<or>
      cluster = ZCL_COLOR_CONTROL_CLUSTER_ID K \<and>
        (attribute = ZCL_COLOR_CONTROL_CURRENT_HUE_ATTRIBUTE_ID K \<or>
         attribute = ZCL_COLOR_CONTROL_CURRENT_SATURATION_ATTRIBUTE_ID K \<or>
         attribute = ZCL_COLOR_CONTROL_COLOR_TEMPERATURE_ATTRIBUTE_ID K))"

text \<open>
  A sample attribute store: every read succeeds and gives \<open>mireds\<close>, every write gives
  \<open>status\<close>.
\<close>

definition sample_store :: "uint16_t \<Rightarrow> EmberAfStatus \<Rightarrow> attribute_store" where
  "sample_store mireds status = \<lparr>
     emberAfReadServerAttribute_ret = (\<lambda>e c a. (EMBER_ZCL_STATUS_SUCCESS, mireds)),
     emberAfWriteAttribute_ret = (\<lambda>e c a m d t. status) \<rparr>"

section \<open>Arithmetic of the unit conversion\<close>

lemma div_bounds:
  fixes a d :: int
  assumes "0 < d"
  shows "d * (a div d) \<le> a" and "a < d * (a div d) + d"
  using mult_div_mod_eq [of d a] pos_mod_bound [OF assms, of a] pos_mod_sign [OF assms, of a]
  by linarith+

text \<open>
  The integer formula of \<open>REMAP_TO_RANGE\<close> is the rounding of the exact quotient to the
  nearest integer.
\<close>

lemma REMAP_TO_RANGE_round:
  assumes "0 < fromMax"
  shows "REMAP_TO_RANGE v fromMax toMax = round (of_int (v * toMax) / of_int fromMax :: rat)"
proof -
  have "(of_int (v * toMax) / of_int fromMax :: rat) + 1 / 2
        = of_int (2 * (v * toMax) + fromMax) / of_int (2 * fromMax)"
    using assms by (simp add: field_simps)
  then show ?thesis
    unfolding REMAP_TO_RANGE_def round_def
    by (simp only: floor_divide_of_int_eq)
qed

text \<open>Wire hue to degrees and back gives the wire hue again.\<close>

lemma hue_round_trip:
  "REMAP_TO_RANGE (REMAP_TO_RANGE v HUE_ATTRIBUTE_MAX HUE_MAX) HUE_MAX HUE_ATTRIBUTE_MAX = v"
proof -
  define h where "h = (718 * v + 254) div 508"
  define w where "w = (508 * h + 359) div 718"
  have h1: "508 * h \<le> 718 * v + 254" and h2: "718 * v + 254 < 508 * h + 508"
    unfolding h_def using div_bounds [of 508 "718 * v + 254"] by simp_all
  have w1: "718 * w \<le> 508 * h + 359" and w2: "508 * h + 359 < 718 * w + 718"
    unfolding w_def using div_bounds [of 718 "508 * h + 359"] by simp_all
  have "w = v" using h1 h2 w1 w2 by linarith
  moreover have "REMAP_TO_RANGE (REMAP_TO_RANGE v HUE_ATTRIBUTE_MAX HUE_MAX)
      HUE_MAX HUE_ATTRIBUTE_MAX = w"
    by (simp add: REMAP_TO_RANGE_def HUE_MAX_def HUE_ATTRIBUTE_MAX_def w_def h_def)
  ultimately show ?thesis by simp
qed

text \<open>
  Wire saturation to percent and back moves the value by one at most: a percent step is
  2.54 wire steps wide, so the way back cannot always hit the value it came from.
\<close>

lemma saturation_round_trip:
  "\<bar>REMAP_TO_RANGE (REMAP_TO_RANGE v SATURATION_ATTRIBUTE_MAX SATURATION_MAX)
      SATURATION_MAX SATURATION_ATTRIBUTE_MAX - v\<bar> \<le> 1"
proof -
  define s where "s = (200 * v + 254) div 508"
  define w where "w = (508 * s + 100) div 200"
  have s1: "508 * s \<le> 200 * v + 254" and s2: "200 * v + 254 < 508 * s + 508"
    unfolding s_def using div_bounds [of 508 "200 * v + 254"] by simp_all
  have w1: "200 * w \<le> 508 * s + 100" and w2: "508 * s + 100 < 200 * w + 200"
    unfolding w_def using div_bounds [of 200 "508 * s + 100"] by simp_all
  have "\<bar>w - v\<bar> \<le> 1" using s1 s2 w1 w2 by linarith
  moreover have "REMAP_TO_RANGE (REMAP_TO_RANGE v SATURATION_ATTRIBUTE_MAX SATURATION_MAX)
      SATURATION_MAX SATURATION_ATTRIBUTE_MAX = w"
    by (simp add: REMAP_TO_RANGE_def SATURATION_MAX_def SATURATION_ATTRIBUTE_MAX_def
        w_def s_def)
  ultimately show ?thesis by simp
qed

text \<open>The two temperature conversions compute in range: nothing is cut off.\<close>

lemma uint_mireds_to_kelvin:
  "uint (mireds_to_kelvin m) = 1000000 div (if m = 0 then 1 else uint m)"
proof -
  define y where "y = (if m = 0 then 1 else uint m)"
  have y: "1 \<le> y"
  proof (cases "m = 0")
    case True then show ?thesis by (simp add: y_def)
  next
    case False
    then have "uint m \<noteq> 0" by (simp add: uint_0_iff)
    moreover have "0 \<le> uint m" by simp
    ultimately have "1 \<le> uint m" by linarith
    then show ?thesis using False by (simp add: y_def)
  qed
  have "0 \<le> 1000000 div y" using y by (simp add: pos_imp_zdiv_nonneg_iff)
  moreover have "1000000 div y \<le> 1000000 div 1" using y by (intro zdiv_mono2) simp_all
  ultimately have "(1000000 div y) mod 2 ^ 32 = 1000000 div y"
    by (intro mod_pos_pos_trivial) simp_all
  then show ?thesis
    unfolding mireds_to_kelvin_def y_def [symmetric] by (simp add: uint_word_of_int)
qed

lemma unat_kelvin_to_mireds:
  assumes "18 \<le> temperature"
  shows "unat (kelvin_to_mireds temperature) = 1000000 div unat temperature"
    and "unat (kelvin_to_mireds temperature) \<le> 55555"
proof -
  have t: "18 \<le> unat temperature" using assms by (simp add: word_le_nat_alt)
  have "1000000 div unat temperature \<le> 1000000 div 18"
    using t by (intro div_le_mono2) simp_all
  then have b: "1000000 div unat temperature \<le> 55555" by simp
  have "unat (kelvin_to_mireds temperature) = (1000000 div unat temperature) mod 2 ^ 16"
    by (simp add: kelvin_to_mireds_def unsigned_ucast_eq take_bit_eq_mod unat_div)
  also have "\<dots> = 1000000 div unat temperature" using b by simp
  finally show "unat (kelvin_to_mireds temperature) = 1000000 div unat temperature" .
  then show "unat (kelvin_to_mireds temperature) \<le> 55555" using b by simp
qed

text \<open>The conversions between \<open>int\<close>, \<open>uint8_t\<close> and \<open>uint16_t\<close> around the macro lose nothing.\<close>

lemma uint_ucast_u8_u16: "uint (ucast (b :: uint8_t) :: uint16_t) = uint b"
  by (simp add: unsigned_ucast_eq take_bit_eq_mod) (use uint_lt2p [of b] in simp)

lemma uint_u8_le: "uint (b :: uint8_t) \<le> 255"
  using uint_lt2p [of b] by simp

lemma inbound_hue_value:
  "uint (word_of_int (REMAP_TO_RANGE (uint (ucast (b :: uint8_t) :: uint16_t))
            HUE_ATTRIBUTE_MAX HUE_MAX) :: uint16_t)
   = REMAP_TO_RANGE (uint b) HUE_ATTRIBUTE_MAX HUE_MAX"
proof -
  define x where "x = (718 * uint b + 254) div 508"
  have "0 \<le> x" unfolding x_def by (simp add: pos_imp_zdiv_nonneg_iff)
  moreover have "x \<le> (718 * 255 + 254) div 508"
    unfolding x_def using uint_u8_le [of b] by (intro zdiv_mono1) simp_all
  ultimately have "x mod 2 ^ 16 = x" by (intro mod_pos_pos_trivial) simp_all
  then show ?thesis
    by (simp add: uint_ucast_u8_u16 REMAP_TO_RANGE_def HUE_ATTRIBUTE_MAX_def HUE_MAX_def
        uint_word_of_int x_def)
qed

text \<open>The hue byte of a notification, sent to the driver and reported back, is written unchanged.\<close>

lemma hue_through_the_code:
  assumes "on_color_control_attribute_changed K store endpoint
             (ZCL_COLOR_CONTROL_CURRENT_HUE_ATTRIBUTE_ID K) val sz
           = [app_driver_update_and_report_hue hue src]"
  shows "fst (update_matter_hue K store' hue) =
           [emberAfWriteAttribute 1 (ZCL_COLOR_CONTROL_CLUSTER_ID K)
              (ZCL_COLOR_CONTROL_CURRENT_HUE_ATTRIBUTE_ID K) (CLUSTER_MASK_SERVER K)
              (U8_object (deref val)) (ZCL_INT8U_ATTRIBUTE_TYPE K)]"
proof -
  have "hue = word_of_int (REMAP_TO_RANGE (uint (ucast (deref val) :: uint16_t))
            HUE_ATTRIBUTE_MAX HUE_MAX)"
    using assms by (simp add: on_color_control_attribute_changed_def Let_def)
  then have "uint hue = REMAP_TO_RANGE (uint (deref val)) HUE_ATTRIBUTE_MAX HUE_MAX"
    by (simp only: inbound_hue_value)
  then have "REMAP_TO_RANGE (uint hue) HUE_MAX HUE_ATTRIBUTE_MAX = uint (deref val)"
    by (simp only: hue_round_trip)
  then show ?thesis by (simp add: update_matter_hue_def Let_def)
qed

lemma inbound_saturation_value:
  "uint (word_of_int (REMAP_TO_RANGE (uint (ucast (b :: uint8_t) :: uint16_t))
            SATURATION_ATTRIBUTE_MAX SATURATION_MAX) :: uint8_t)
   = REMAP_TO_RANGE (uint b) SATURATION_ATTRIBUTE_MAX SATURATION_MAX"
  and inbound_saturation_bound:
  "REMAP_TO_RANGE (uint (b :: uint8_t)) SATURATION_ATTRIBUTE_MAX SATURATION_MAX \<in> {0..100}"
proof -
  define x where "x = (200 * uint b + 254) div 508"
  have x0: "0 \<le> x" unfolding x_def by (simp add: pos_imp_zdiv_nonneg_iff)
  have "x \<le> (200 * 255 + 254) div 508"
    unfolding x_def using uint_u8_le [of b] by (intro zdiv_mono1) simp_all
  then have x1: "x \<le> 100" by simp
  have "x mod 2 ^ 8 = x" using x0 x1 by (intro mod_pos_pos_trivial) simp_all
  then show "uint (word_of_int (REMAP_TO_RANGE (uint (ucast (b :: uint8_t) :: uint16_t))
            SATURATION_ATTRIBUTE_MAX SATURATION_MAX) :: uint8_t)
   = REMAP_TO_RANGE (uint b) SATURATION_ATTRIBUTE_MAX SATURATION_MAX"
    by (simp add: uint_ucast_u8_u16 REMAP_TO_RANGE_def SATURATION_ATTRIBUTE_MAX_def
        SATURATION_MAX_def uint_word_of_int x_def)
  show "REMAP_TO_RANGE (uint b) SATURATION_ATTRIBUTE_MAX SATURATION_MAX \<in> {0..100}"
    using x0 x1
    by (simp add: REMAP_TO_RANGE_def SATURATION_ATTRIBUTE_MAX_def SATURATION_MAX_def x_def)
qed

lemma outbound_saturation_value:
  assumes "uint (s :: uint8_t) \<le> 100"
  shows "uint (word_of_int (REMAP_TO_RANGE (uint (ucast s :: uint16_t))
            SATURATION_MAX SATURATION_ATTRIBUTE_MAX) :: uint8_t)
   = REMAP_TO_RANGE (uint s) SATURATION_MAX SATURATION_ATTRIBUTE_MAX"
proof -
  define x where "x = (508 * uint s + 100) div 200"
  have x0: "0 \<le> x" unfolding x_def by (simp add: pos_imp_zdiv_nonneg_iff)
  have "x \<le> (508 * 100 + 100) div 200"
    unfolding x_def using assms by (intro zdiv_mono1) simp_all
  then have x1: "x \<le> 254" by simp
  have "x mod 2 ^ 8 = x" using x0 x1 by (intro mod_pos_pos_trivial) simp_all
  then show ?thesis
    by (simp add: uint_ucast_u8_u16 REMAP_TO_RANGE_def SATURATION_ATTRIBUTE_MAX_def
        SATURATION_MAX_def uint_word_of_int x_def)
qed

text \<open>
  The saturation byte of a notification, sent to the driver and reported back, is written
  within one of its value.
\<close>

lemma saturation_through_the_code:
  assumes "on_color_control_attribute_changed K store endpoint
             (ZCL_COLOR_CONTROL_CURRENT_SATURATION_ATTRIBUTE_ID K) val sz
           = [app_driver_update_and_report_saturation saturation src]"
  shows "\<exists>w. fst (update_matter_saturation K store' saturation) =
           [emberAfWriteAttribute 1 (ZCL_COLOR_CONTROL_CLUSTER_ID K)
              (ZCL_COLOR_CONTROL_CURRENT_SATURATION_ATTRIBUTE_ID K) (CLUSTER_MASK_SERVER K)
              (U8_object w) (ZCL_INT8U_ATTRIBUTE_TYPE K)] \<and>
           \<bar>uint w - uint (deref val)\<bar> \<le> 1"
proof -
  have "saturation = word_of_int (REMAP_TO_RANGE (uint (ucast (deref val) :: uint16_t))
            SATURATION_ATTRIBUTE_MAX SATURATION_MAX)"
    using assms by (simp add: on_color_control_attribute_changed_def Let_def split: if_splits)
  then have s: "uint saturation =
      REMAP_TO_RANGE (uint (deref val)) SATURATION_ATTRIBUTE_MAX SATURATION_MAX"
    by (simp only: inbound_saturation_value)
  then have "uint saturation \<le> 100" using inbound_saturation_bound [of "deref val"] by simp
  then have "uint (word_of_int (REMAP_TO_RANGE (uint (ucast saturation :: uint16_t))
            SATURATION_MAX SATURATION_ATTRIBUTE_MAX) :: uint8_t)
      = REMAP_TO_RANGE (uint saturation) SATURATION_MAX SATURATION_ATTRIBUTE_MAX"
    by (rule outbound_saturation_value)
  then have "\<bar>uint (word_of_int (REMAP_TO_RANGE (uint (ucast saturation :: uint16_t))
            SATURATION_MAX SATURATION_ATTRIBUTE_MAX) :: uint8_t) - uint (deref val)\<bar> \<le> 1"
    using saturation_round_trip [of "uint (deref val)"] by (simp only: s)
  then show ?thesis by (simp add: update_matter_saturation_def Let_def)
qed

section \<open>The claims\<close>

subsection \<open>C1: failure codes of the lifecycle controller\<close>

text \<open>
  C1, as stated: each failing step of \<open>app_matter_init\<close> returns a failure code of its
  own. The code does not: a failing chip-stack initialisation and a failing event-loop
  start both return \<open>ESP_FAIL\<close>.
\<close>

theorem C1_same_code_counterexample:
  "snd (app_matter_init True (fail_at Chip_Stack_Init)) = ESP_FAIL \<and>
   snd (app_matter_init True (fail_at Event_Loop_Start)) = ESP_FAIL"
  by (simp add: app_matter_init_def fail_at_def)

text \<open>
  C1, amended: \<open>app_matter_init\<close> returns \<open>ESP_ERR_NO_MEM\<close> exactly when the memory
  pool initialisation is the first step to fail, \<open>ESP_FAIL\<close> exactly when the first step
  to fail is the chip-stack initialisation, the event-loop start or, in a Thread build, the
  Thread stack initialisation or the Thread task start, and \<open>ESP_OK\<close> exactly when no
  step fails. So only the out-of-memory code tells its step apart from the others.
\<close>

theorem C1_failure_codes:
  "(snd (app_matter_init thr p) = ESP_ERR_NO_MEM \<longleftrightarrow>
      InitChipStack_ret p = CHIP_NO_ERROR \<and> MemoryInit_ret p \<noteq> CHIP_NO_ERROR) \<and>
   (snd (app_matter_init thr p) = ESP_FAIL \<longleftrightarrow>
      InitChipStack_ret p \<noteq> CHIP_NO_ERROR \<or>
      MemoryInit_ret p = CHIP_NO_ERROR \<and>
        (StartEventLoopTask_ret p \<noteq> CHIP_NO_ERROR \<or>
         thr \<and> (InitThreadStack_ret p \<noteq> CHIP_NO_ERROR \<or>
                StartThreadTask_ret p \<noteq> CHIP_NO_ERROR))) \<and>
   (snd (app_matter_init thr p) = ESP_OK \<longleftrightarrow>
      InitChipStack_ret p = CHIP_NO_ERROR \<and> MemoryInit_ret p = CHIP_NO_ERROR \<and>
      StartEventLoopTask_ret p = CHIP_NO_ERROR \<and>
      (thr \<longrightarrow> InitThreadStack_ret p = CHIP_NO_ERROR \<and>
               StartThreadTask_ret p = CHIP_NO_ERROR))"
  by (simp add: app_matter_init_def Let_def)

theorem C1_failure_codes_witness:
  "snd (app_matter_init True (fail_at Memory_Pool_Init)) = ESP_ERR_NO_MEM \<and>
   snd (app_matter_init True (fail_at Thread_Task_Start)) = ESP_FAIL \<and>
   snd (app_matter_init False (fail_at Thread_Task_Start)) = ESP_OK"
  using C1_failure_codes [of True "fail_at Memory_Pool_Init"]
    C1_failure_codes [of True "fail_at Thread_Task_Start"]
    C1_failure_codes [of False "fail_at Thread_Task_Start"]
  by (simp add: fail_at_def)

subsection \<open>C2: round trip of hue and saturation\<close>

text \<open>
  C2: for every wire value \<open>v\<close> from 0 to 254, remapping \<open>v\<close> to degrees (maximum 359)
  and back to the wire range (maximum 254) gives a value within 1 of \<open>v\<close>, and so does
  remapping \<open>v\<close> to percent (maximum 100) and back.
\<close>

theorem C2_round_trip:
  assumes "v \<in> {0..254}"
  shows "\<bar>REMAP_TO_RANGE (REMAP_TO_RANGE v HUE_ATTRIBUTE_MAX HUE_MAX)
            HUE_MAX HUE_ATTRIBUTE_MAX - v\<bar> \<le> 1 \<and>
         \<bar>REMAP_TO_RANGE (REMAP_TO_RANGE v SATURATION_ATTRIBUTE_MAX SATURATION_MAX)
            SATURATION_MAX SATURATION_ATTRIBUTE_MAX - v\<bar> \<le> 1"
  using hue_round_trip [of v] saturation_round_trip [of v] by simp

theorem C2_round_trip_witness:
  "(200::int) \<in> {0..254} \<and>
   \<bar>REMAP_TO_RANGE (REMAP_TO_RANGE 200 HUE_ATTRIBUTE_MAX HUE_MAX)
      HUE_MAX HUE_ATTRIBUTE_MAX - 200\<bar> \<le> 1 \<and>
   \<bar>REMAP_TO_RANGE (REMAP_TO_RANGE 200 SATURATION_ATTRIBUTE_MAX SATURATION_MAX)
      SATURATION_MAX SATURATION_ATTRIBUTE_MAX - 200\<bar> \<le> 1"
  using C2_round_trip [of 200] by simp

subsection \<open>C3: a reported hue of 120 degrees\<close>

text \<open>
  C3: when the driver reports a hue of 120 degrees, \<open>update_matter_hue\<close> writes the wire
  value 85 to the current-hue attribute of the color-control cluster at endpoint 1.
\<close>

theorem C3_hue_120:
  "fst (update_matter_hue K store 120) =
     [emberAfWriteAttribute 1 (ZCL_COLOR_CONTROL_CLUSTER_ID K)
        (ZCL_COLOR_CONTROL_CURRENT_HUE_ATTRIBUTE_ID K) (CLUSTER_MASK_SERVER K)
        (U8_object 85) (ZCL_INT8U_ATTRIBUTE_TYPE K)]"
  by (simp add: update_matter_hue_def REMAP_TO_RANGE_def HUE_MAX_def HUE_ATTRIBUTE_MAX_def
      Let_def)

subsection \<open>C4: a change of the color temperature\<close>

text \<open>
  C4: on a change of the color-temperature attribute of the color-control cluster the
  dispatcher does not use the notified value: it reads the mireds value of the attribute
  from the store, at the endpoint of the notification, and calls the driver's temperature
  update with 1000000 divided by that value, a value of 0 counting as 1. So 250 mireds
  give 4000 Kelvin and 0 mireds give 1000000 Kelvin. The notified bytes \<open>val\<close> do not
  occur in the calls made.
\<close>

theorem C4_color_temperature:
  assumes "distinct_ids K"
  shows "emberAfPostAttributeChangeCallback K store endpoint (ZCL_COLOR_CONTROL_CLUSTER_ID K)
           (ZCL_COLOR_CONTROL_COLOR_TEMPERATURE_ATTRIBUTE_ID K) mask' manufacturer type' size'
           val =
         [ESP_LOG ESP_LOGI ''Handle cluster ID: %d'' [uint (ZCL_COLOR_CONTROL_CLUSTER_ID K)],
          emberAfReadServerAttribute endpoint (ZCL_COLOR_CONTROL_CLUSTER_ID K)
            (ZCL_COLOR_CONTROL_COLOR_TEMPERATURE_ATTRIBUTE_ID K) 2,
          app_driver_update_and_report_temperature
            (mireds_to_kelvin (snd (emberAfReadServerAttribute_ret store endpoint
               (ZCL_COLOR_CONTROL_CLUSTER_ID K)
               (ZCL_COLOR_CONTROL_COLOR_TEMPERATURE_ATTRIBUTE_ID K))))
            APP_DRIVER_SRC_MATTER] \<and>
         uint (mireds_to_kelvin m) = 1000000 div (if m = 0 then 1 else uint m) \<and>
         mireds_to_kelvin 250 = 4000 \<and> mireds_to_kelvin 0 = 1000000"
proof -
  have "mireds_to_kelvin 250 = 4000" "mireds_to_kelvin 0 = 1000000"
    by (simp_all add: mireds_to_kelvin_def)
  moreover have "emberAfPostAttributeChangeCallback K store endpoint (ZCL_COLOR_CONTROL_CLUSTER_ID K)
           (ZCL_COLOR_CONTROL_COLOR_TEMPERATURE_ATTRIBUTE_ID K) mask' manufacturer type' size'
           val =
         [ESP_LOG ESP_LOGI ''Handle cluster ID: %d'' [uint (ZCL_COLOR_CONTROL_CLUSTER_ID K)],
          emberAfReadServerAttribute endpoint (ZCL_COLOR_CONTROL_CLUSTER_ID K)
            (ZCL_COLOR_CONTROL_COLOR_TEMPERATURE_ATTRIBUTE_ID K) 2,
          app_driver_update_and_report_temperature
            (mireds_to_kelvin (snd (emberAfReadServerAttribute_ret store endpoint
               (ZCL_COLOR_CONTROL_CLUSTER_ID K)
               (ZCL_COLOR_CONTROL_COLOR_TEMPERATURE_ATTRIBUTE_ID K))))
            APP_DRIVER_SRC_MATTER]"
    using assms
    by (auto simp add: emberAfPostAttributeChangeCallback_def
        on_color_control_attribute_changed_def distinct_ids_def Let_def)
  ultimately show ?thesis using uint_mireds_to_kelvin [of m] by simp
qed

theorem C4_color_temperature_witness:
  "distinct_ids zcl_standard \<and>
   emberAfPostAttributeChangeCallback zcl_standard (sample_store 250 EMBER_ZCL_STATUS_SUCCESS)
     1 0x0300 0x0007 0 0 0x21 2 (0x99, [0x01]) =
     [ESP_LOG ESP_LOGI ''Handle cluster ID: %d'' [768],
      emberAfReadServerAttribute 1 0x0300 0x0007 2,
      app_driver_update_and_report_temperature 4000 APP_DRIVER_SRC_MATTER]"
proof -
  have d: "distinct_ids zcl_standard" by (simp add: distinct_ids_def zcl_standard_def)
  show ?thesis
    using d C4_color_temperature [where K = zcl_standard
        and store = "sample_store 250 EMBER_ZCL_STATUS_SUCCESS" and endpoint = 1
        and mask' = 0 and manufacturer = 0 and type' = "0x21" and size' = 2
        and val = "(0x99, [0x01])" and m = 0]
    by (simp add: zcl_standard_def sample_store_def)
qed

subsection \<open>C5: the precondition of the temperature reporter\<close>

text \<open>
  C5: \<open>update_matter_temperature\<close> called with less than 18 Kelvin aborts at its assertion
  before any write is issued; called with 18 Kelvin or more it writes
  1000000 / kelvin, and 4000 Kelvin give 250 mireds.
\<close>

theorem C5_temperature_precondition:
  "(temperature < 18 \<longrightarrow> update_matter_temperature K store temperature = ([], Aborted)) \<and>
   (18 \<le> temperature \<longrightarrow>
      fst (update_matter_temperature K store temperature) =
        [emberAfWriteAttribute 1 (ZCL_COLOR_CONTROL_CLUSTER_ID K)
           (ZCL_COLOR_CONTROL_COLOR_TEMPERATURE_ATTRIBUTE_ID K) (CLUSTER_MASK_SERVER K)
           (U16_object (kelvin_to_mireds temperature)) (ZCL_INT16U_ATTRIBUTE_TYPE K)] \<and>
      unat (kelvin_to_mireds temperature) = 1000000 div unat temperature) \<and>
   kelvin_to_mireds 4000 = 250"
proof -
  have "kelvin_to_mireds 4000 = 250" by (simp add: kelvin_to_mireds_def)
  moreover have "temperature < 18 \<longrightarrow> update_matter_temperature K store temperature = ([], Aborted)"
    by (simp add: update_matter_temperature_def not_le)
  moreover have "18 \<le> temperature \<longrightarrow>
      fst (update_matter_temperature K store temperature) =
        [emberAfWriteAttribute 1 (ZCL_COLOR_CONTROL_CLUSTER_ID K)
           (ZCL_COLOR_CONTROL_COLOR_TEMPERATURE_ATTRIBUTE_ID K) (CLUSTER_MASK_SERVER K)
           (U16_object (kelvin_to_mireds temperature)) (ZCL_INT16U_ATTRIBUTE_TYPE K)]"
    by (simp add: update_matter_temperature_def Let_def)
  ultimately show ?thesis using unat_kelvin_to_mireds(1) [of temperature] by blast
qed

theorem C5_temperature_precondition_witness:
  "(17 :: uint32_t) < 18 \<and>
   update_matter_temperature zcl_standard (sample_store 0 EMBER_ZCL_STATUS_SUCCESS) 17 = ([], Aborted) \<and>
   (18 :: uint32_t) \<le> 4000 \<and>
   fst (update_matter_temperature zcl_standard (sample_store 0 EMBER_ZCL_STATUS_SUCCESS) 4000) =
     [emberAfWriteAttribute 1 0x0300 0x0007 0x40 (U16_object 250) 0x21]"
  using C5_temperature_precondition [of 17 zcl_standard "sample_store 0 EMBER_ZCL_STATUS_SUCCESS"]
    C5_temperature_precondition [of 4000 zcl_standard "sample_store 0 EMBER_ZCL_STATUS_SUCCESS"]
  by (simp add: zcl_standard_def)

subsection \<open>C6: unknown attributes and unknown clusters\<close>

text \<open>
  C6: a notification for a known cluster with an attribute that is not recognized in it
  leads to no driver call and to exactly one warning log; a notification for an unknown
  cluster leads to neither, the only call being the informational log of the cluster id.
\<close>

theorem C6_unknown_ids:
  "(known_cluster K cluster \<and> \<not> recognized_attribute K cluster attribute \<longrightarrow>
      filter is_driver_call (emberAfPostAttributeChangeCallback K store endpoint cluster
        attribute mask' manufacturer type' size' val) = [] \<and>
      length (filter is_warning (emberAfPostAttributeChangeCallback K store endpoint cluster
        attribute mask' manufacturer type' size' val)) = 1) \<and>
   (\<not> known_cluster K cluster \<longrightarrow>
      emberAfPostAttributeChangeCallback K store endpoint cluster attribute mask' manufacturer
        type' size' val = [ESP_LOG ESP_LOGI ''Handle cluster ID: %d'' [uint cluster]])"
  by (auto simp add: emberAfPostAttributeChangeCallback_def on_on_off_attribute_changed_def
      on_level_control_atrribute_changed_def on_color_control_attribute_changed_def
      known_cluster_def recognized_attribute_def)

theorem C6_unknown_ids_witness:
  "known_cluster zcl_standard 0x0006 \<and> \<not> recognized_attribute zcl_standard 0x0006 0x4000 \<and>
   filter is_driver_call (emberAfPostAttributeChangeCallback zcl_standard
     (sample_store 250 EMBER_ZCL_STATUS_SUCCESS) 1 0x0006 0x4000 0 0 0x10 1 (1, [])) = [] \<and>
   length (filter is_warning (emberAfPostAttributeChangeCallback zcl_standard
     (sample_store 250 EMBER_ZCL_STATUS_SUCCESS) 1 0x0006 0x4000 0 0 0x10 1 (1, []))) = 1 \<and>
   \<not> known_cluster zcl_standard 0x0003 \<and>
   emberAfPostAttributeChangeCallback zcl_standard
     (sample_store 250 EMBER_ZCL_STATUS_SUCCESS) 1 0x0003 0x0000 0 0 0x21 2 (1, [0]) =
     [ESP_LOG ESP_LOGI ''Handle cluster ID: %d'' [3]]"
  using C6_unknown_ids [where K = zcl_standard and cluster = "0x0006" and attribute = "0x4000"
      and store = "sample_store 250 EMBER_ZCL_STATUS_SUCCESS" and endpoint = 1 and mask' = 0
      and manufacturer = 0 and type' = "0x10" and size' = 1 and val = "(1, [])"]
    C6_unknown_ids [where K = zcl_standard and cluster = "0x0003" and attribute = "0x0000"
      and store = "sample_store 250 EMBER_ZCL_STATUS_SUCCESS" and endpoint = 1 and mask' = 0
      and manufacturer = 0 and type' = "0x21" and size' = 2 and val = "(1, [0])"]
  by (simp add: known_cluster_def recognized_attribute_def zcl_standard_def)

subsection \<open>C7: the one compensating action of the lifecycle controller\<close>

text \<open>
  C7: \<open>app_matter_init\<close> calls \<open>MemoryShutdown\<close> exactly when the start of the event
  loop task fails, after the failed start and before it returns \<open>ESP_FAIL\<close>. When the
  chip stack initialisation, the memory pool initialisation, the Thread stack
  initialisation or the Thread task start fails, it logs the error and returns, and no
  call undoes an earlier step.
\<close>

theorem C7_memory_shutdown:
  "(Platform_MemoryShutdown \<in> set (fst (app_matter_init thr p)) \<longleftrightarrow>
      InitChipStack_ret p = CHIP_NO_ERROR \<and> MemoryInit_ret p = CHIP_NO_ERROR \<and>
      StartEventLoopTask_ret p \<noteq> CHIP_NO_ERROR) \<and>
   (InitChipStack_ret p = CHIP_NO_ERROR \<and> MemoryInit_ret p = CHIP_NO_ERROR \<and>
    StartEventLoopTask_ret p \<noteq> CHIP_NO_ERROR \<longrightarrow>
      app_matter_init thr p =
        ([PlatformMgr_InitChipStack, ConnectivityMgr_SetBLEAdvertisingEnabled True,
          Platform_MemoryInit, PlatformMgr_StartEventLoopTask, Platform_MemoryShutdown,
          ESP_LOG ESP_LOGE ''Failed to launch Matter main task'' []], ESP_FAIL)) \<and>
   (InitChipStack_ret p \<noteq> CHIP_NO_ERROR \<longrightarrow>
      app_matter_init thr p =
        ([PlatformMgr_InitChipStack,
          ESP_LOG ESP_LOGE ''Failed to initialize CHIP stack'' []], ESP_FAIL)) \<and>
   (InitChipStack_ret p = CHIP_NO_ERROR \<and> MemoryInit_ret p \<noteq> CHIP_NO_ERROR \<longrightarrow>
      app_matter_init thr p =
        ([PlatformMgr_InitChipStack, ConnectivityMgr_SetBLEAdvertisingEnabled True,
          Platform_MemoryInit,
          ESP_LOG ESP_LOGE ''Failed to initialize CHIP memory pool'' []], ESP_ERR_NO_MEM)) \<and>
   (InitChipStack_ret p = CHIP_NO_ERROR \<and> MemoryInit_ret p = CHIP_NO_ERROR \<and>
    StartEventLoopTask_ret p = CHIP_NO_ERROR \<and> thr \<and>
    InitThreadStack_ret p \<noteq> CHIP_NO_ERROR \<longrightarrow>
      app_matter_init thr p =
        ([PlatformMgr_InitChipStack, ConnectivityMgr_SetBLEAdvertisingEnabled True,
          Platform_MemoryInit, PlatformMgr_StartEventLoopTask, PlatformMgr_AddEventHandler,
          ThreadStackMgr_InitThreadStack,
          ESP_LOG ESP_LOGE ''Failed to initialize Thread stack'' []], ESP_FAIL)) \<and>
   (InitChipStack_ret p = CHIP_NO_ERROR \<and> MemoryInit_ret p = CHIP_NO_ERROR \<and>
    StartEventLoopTask_ret p = CHIP_NO_ERROR \<and> thr \<and>
    InitThreadStack_ret p = CHIP_NO_ERROR \<and> StartThreadTask_ret p \<noteq> CHIP_NO_ERROR \<longrightarrow>
      app_matter_init thr p =
        ([PlatformMgr_InitChipStack, ConnectivityMgr_SetBLEAdvertisingEnabled True,
          Platform_MemoryInit, PlatformMgr_StartEventLoopTask, PlatformMgr_AddEventHandler,
          ThreadStackMgr_InitThreadStack, ThreadStackMgr_StartThreadTask,
          ESP_LOG ESP_LOGE ''Failed to launch Thread task'' []], ESP_FAIL))"
  by (simp add: app_matter_init_def Let_def)

theorem C7_memory_shutdown_witness:
  "app_matter_init True (fail_at Event_Loop_Start) =
     ([PlatformMgr_InitChipStack, ConnectivityMgr_SetBLEAdvertisingEnabled True,
       Platform_MemoryInit, PlatformMgr_StartEventLoopTask, Platform_MemoryShutdown,
       ESP_LOG ESP_LOGE ''Failed to launch Matter main task'' []], ESP_FAIL) \<and>
   Platform_MemoryShutdown \<notin> set (fst (app_matter_init True (fail_at Chip_Stack_Init))) \<and>
   Platform_MemoryShutdown \<notin> set (fst (app_matter_init True (fail_at Memory_Pool_Init))) \<and>
   Platform_MemoryShutdown \<notin> set (fst (app_matter_init True (fail_at Thread_Stack_Init))) \<and>
   Platform_MemoryShutdown \<notin> set (fst (app_matter_init True (fail_at Thread_Task_Start)))"
  using C7_memory_shutdown [of True "fail_at Event_Loop_Start"]
    C7_memory_shutdown [of True "fail_at Chip_Stack_Init"]
    C7_memory_shutdown [of True "fail_at Memory_Pool_Init"]
    C7_memory_shutdown [of True "fail_at Thread_Stack_Init"]
    C7_memory_shutdown [of True "fail_at Thread_Task_Start"]
  by (simp add: fail_at_def)

subsection \<open>C8: the writes of the outbound reporter\<close>

text \<open>
  C8: every attribute write issued by one of the five reporters goes to endpoint 1, and a
  reporter whose write returns a status other than success aborts.
\<close>

theorem C8_writes:
  "\<forall>r \<in> {update_matter_power K store pw, update_matter_brightness K store brightness,
           update_matter_hue K store hue, update_matter_saturation K store saturation,
           update_matter_temperature K store temperature}.
     (\<forall>c \<in> set (fst r). is_write c \<longrightarrow> write_endpoint c = Some 1) \<and>
     (\<forall>e cl a m d t. emberAfWriteAttribute e cl a m d t \<in> set (fst r) \<and>
        emberAfWriteAttribute_ret store e cl a m d t \<noteq> EMBER_ZCL_STATUS_SUCCESS \<longrightarrow>
        snd r = Aborted)"
  by (simp add: update_matter_power_def update_matter_brightness_def update_matter_hue_def
      update_matter_saturation_def update_matter_temperature_def assert_status_def Let_def)

theorem C8_writes_witness:
  "emberAfWriteAttribute 1 0x0006 0x0000 0x40 (Bool_object True) 0x10 \<in>
     set (fst (update_matter_power zcl_standard (sample_store 0 (EMBER_ZCL_STATUS_OTHER 1)) True)) \<and>
   emberAfWriteAttribute_ret (sample_store 0 (EMBER_ZCL_STATUS_OTHER 1))
     1 0x0006 0x0000 0x40 (Bool_object True) 0x10 \<noteq> EMBER_ZCL_STATUS_SUCCESS \<and>
   snd (update_matter_power zcl_standard (sample_store 0 (EMBER_ZCL_STATUS_OTHER 1)) True)
     = Aborted"
proof -
  let ?S = "sample_store 0 (EMBER_ZCL_STATUS_OTHER 1)"
  let ?w = "emberAfWriteAttribute 1 0x0006 0x0000 0x40 (Bool_object True) 0x10"
  have m: "?w \<in> set (fst (update_matter_power zcl_standard ?S True))"
    by (simp add: update_matter_power_def zcl_standard_def Let_def)
  have f: "emberAfWriteAttribute_ret ?S 1 0x0006 0x0000 0x40 (Bool_object True) 0x10
             \<noteq> EMBER_ZCL_STATUS_SUCCESS"
    by (simp add: sample_store_def)
  have "snd (update_matter_power zcl_standard ?S True) = Aborted"
    using C8_writes [of zcl_standard ?S True 0 0 0 0] m f by blast
  then show ?thesis using m f by simp
qed

subsection \<open>C9: the range of the mireds value\<close>

text \<open>
  C9, as stated: for every temperature of 18 Kelvin or more the mireds value written lies
  between 1 and 55555. The lower bound fails: 1000001 Kelvin satisfy the precondition and
  the value written is 0.
\<close>

theorem C9_zero_mireds_counterexample:
  "(18 :: uint32_t) \<le> 1000001 \<and> unat (kelvin_to_mireds 1000001) = 0 \<and>
   fst (update_matter_temperature zcl_standard (sample_store 0 EMBER_ZCL_STATUS_SUCCESS) 1000001) =
     [emberAfWriteAttribute 1 0x0300 0x0007 0x40 (U16_object 0) 0x21]"
  by (simp add: update_matter_temperature_def kelvin_to_mireds_def zcl_standard_def
      sample_store_def Let_def)

text \<open>
  C9, amended: for every temperature of 18 Kelvin or more the mireds value written is
  1000000 / kelvin without truncation, at most 55555, hence below \<open>0xfeff\<close> and within 16
  bits; it is at least 1 exactly when the temperature is at most 1000000 Kelvin, and 0
  above. This is the range \<open>[0, 0xfeff]\<close> that the comment at the assertion names.
\<close>

theorem C9_mireds_range:
  assumes "18 \<le> temperature"
  shows "unat (kelvin_to_mireds temperature) = 1000000 div unat temperature \<and>
         unat (kelvin_to_mireds temperature) \<le> 55555 \<and>
         (55555 :: nat) \<le> 0xfeff \<and> (0xfeff :: nat) < 2 ^ 16 \<and>
         (1 \<le> unat (kelvin_to_mireds temperature) \<longleftrightarrow> temperature \<le> 1000000)"
proof -
  have t: "0 < unat temperature" using assms by (simp add: word_le_nat_alt)
  have "1 \<le> 1000000 div unat temperature \<longleftrightarrow> unat temperature \<le> 1000000"
    using t by (simp add: Suc_le_eq div_greater_zero_iff)
  moreover have "temperature \<le> 1000000 \<longleftrightarrow> unat temperature \<le> 1000000"
    by (simp add: word_le_nat_alt)
  ultimately show ?thesis using unat_kelvin_to_mireds [OF assms] by simp
qed

theorem C9_mireds_range_witness:
  "(18 :: uint32_t) \<le> 18 \<and> unat (kelvin_to_mireds 18) = 55555 \<and>
   (18 :: uint32_t) \<le> 2700 \<and> unat (kelvin_to_mireds 2700) = 370"
  using C9_mireds_range [of 18] C9_mireds_range [of 2700] by simp

subsection \<open>C10: the parameters the dispatcher does not read\<close>

text \<open>
  C10, as stated: two invocations of the dispatcher that agree on cluster, attribute,
  notified bytes and endpoint make the same driver call. They need not: for a
  color-temperature change the argument of the driver call comes from the attribute
  store, and with 250 mireds stored the driver gets 4000 Kelvin, with 500 mireds stored
  2000 Kelvin, for the same notification.
\<close>

theorem C10_store_counterexample:
  "filter is_driver_call (emberAfPostAttributeChangeCallback zcl_standard
     (sample_store 250 EMBER_ZCL_STATUS_SUCCESS) 1 0x0300 0x0007 0 0 0x21 2 (0xFA, [0])) =
     [app_driver_update_and_report_temperature 4000 APP_DRIVER_SRC_MATTER] \<and>
   filter is_driver_call (emberAfPostAttributeChangeCallback zcl_standard
     (sample_store 500 EMBER_ZCL_STATUS_SUCCESS) 1 0x0300 0x0007 0 0 0x21 2 (0xFA, [0])) =
     [app_driver_update_and_report_temperature 2000 APP_DRIVER_SRC_MATTER]"
  by (simp add: emberAfPostAttributeChangeCallback_def on_color_control_attribute_changed_def
      zcl_standard_def sample_store_def mireds_to_kelvin_def Let_def)

text \<open>
  C10, amended: two invocations of the dispatcher on the same attribute store that agree
  on cluster, attribute, notified bytes and endpoint make the same calls, and so the same
  driver call with the same argument, whatever the mask, the manufacturer code, the type
  tag and the size are.
\<close>

theorem C10_unread_parameters:
  "emberAfPostAttributeChangeCallback K store endpoint cluster attribute mask1 manufacturer1
     type1 size1 val =
   emberAfPostAttributeChangeCallback K store endpoint cluster attribute mask2 manufacturer2
     type2 size2 val \<and>
   filter is_driver_call (emberAfPostAttributeChangeCallback K store endpoint cluster attribute
     mask1 manufacturer1 type1 size1 val) =
   filter is_driver_call (emberAfPostAttributeChangeCallback K store endpoint cluster attribute
     mask2 manufacturer2 type2 size2 val)"
  by (simp add: emberAfPostAttributeChangeCallback_def on_on_off_attribute_changed_def
      on_level_control_atrribute_changed_def on_color_control_attribute_changed_def)

end
